theory Spec2Isabelle
  imports Complex_Main
begin

section \<open>Data model\<close>

text \<open>
  JavaScript numbers are modelled as reals. The numbers that the properties below
  read are small multiples of 0.5 (segment durations, the slider's values with its
  step of 0.5, the thresholds at 52.5 and 63), where the arithmetic of the source is
  exact.
\<close>

datatype LocationType = current | pickup | dropoff

record Coordinates =
  lat :: real
  lng :: real

record Location = Coordinates +
  address :: string
  type :: LocationType

text \<open>
  The five values a trip is planned from. The planning page holds them as state,
  the persisted record holds them next to \<open>plannedAt\<close>.
\<close>

record TripInputs =
  currentLocation :: string
  pickupLocation :: string
  dropoffLocation :: string
  cycleHours :: real
  mapLocations :: "Location list"

record TripData = TripInputs +
  plannedAt :: string

datatype DutyStatus = driving | onduty | sleeper | offduty

record LogSegment =
  startTime :: string
  endTime :: string
  status :: DutyStatus
  location :: string
  duration :: real

record ELDLog =
  log_id :: string
  date :: string
  drivingTime :: real
  onDutyTime :: real
  sleeperTime :: real
  offDutyTime :: real
  segments :: "LogSegment list"

datatype error = RangeError | SyntaxError | QuotaExceededError

section \<open>The browser runtime\<close>

text \<open>
  The built-ins of the JavaScript runtime that the pages call are parameters of the
  model. A \<open>Date\<close> object is its time value in milliseconds, \<open>None\<close> for an invalid
  date.
  \<^item> \<open>Date_parse s\<close> is \<open>new Date(s)\<close>;
  \<^item> \<open>Date_addDays t n\<close> is the time value after \<open>date.setDate(date.getDate() + n)\<close>,
    which depends on the local time zone, and is \<open>None\<close> when the result leaves the
    range of \<open>Date\<close>;
  \<^item> \<open>Date_toISOString t\<close> is \<open>toISOString()\<close> of a valid date;
  \<^item> \<open>JSON_stringify\<close> and \<open>JSON_parse\<close> are the serialisation of a trip record
    (\<open>None\<close>: the text does not parse to one);
  \<^item> \<open>Storage_accepts store k v\<close> tells whether \<open>localStorage.setItem(k, v)\<close> succeeds
    on a store with that content; where it does not, \<open>setItem\<close> raises (the quota is
    used up, or storage is disabled).
\<close>

record Runtime =
  Date_parse :: "string \<Rightarrow> int option"
  Date_addDays :: "int \<Rightarrow> nat \<Rightarrow> int option"
  Date_toISOString :: "int \<Rightarrow> string"
  JSON_stringify :: "TripData \<Rightarrow> string"
  JSON_parse :: "string \<Rightarrow> TripData option"
  Storage_accepts :: "(string \<rightharpoonup> string) \<Rightarrow> string \<Rightarrow> string \<Rightarrow> bool"

text \<open>\<open>date.toISOString()\<close> raises \<open>RangeError\<close> on an invalid date.\<close>

definition toISOString :: "Runtime \<Rightarrow> int option \<Rightarrow> error + string" where
  "toISOString rt d = (case d of None \<Rightarrow> Inl RangeError | Some t \<Rightarrow> Inr (Date_toISOString rt t))"

text \<open>\<open>date.setDate(date.getDate() + n)\<close>: an invalid date stays invalid.\<close>

definition setDate_plus :: "Runtime \<Rightarrow> int option \<Rightarrow> nat \<Rightarrow> int option" where
  "setDate_plus rt d n = (case d of None \<Rightarrow> None | Some t \<Rightarrow> Date_addDays rt t n)"

text \<open>\<open>s.split('T')[0]\<close>: the text before the first \<open>T\<close>.\<close>

definition split_T_first :: "string \<Rightarrow> string" where
  "split_T_first s = takeWhile (\<lambda>c. c \<noteq> CHR ''T'') s"

text \<open>Decimal rendering of a natural number, as a template literal does.\<close>

definition digit_char :: "nat \<Rightarrow> char" where
  "digit_char d = char_of (48 + d)"

function toString_nat :: "nat \<Rightarrow> string" where
  "toString_nat n = (if n < 10 then [digit_char n] else toString_nat (n div 10) @ [digit_char (n mod 10)])"
  by pat_completeness auto
termination
  by (relation "measure (\<lambda>n. n)") auto

declare toString_nat.simps [simp del]

section \<open>The mock log generator (ReviewLogs.tsx, generateELDLogs)\<close>

definition daySegments :: "TripData \<Rightarrow> nat \<Rightarrow> LogSegment list" where
  "daySegments data day =
    [ \<lparr> startTime = ''06:00'', endTime = ''07:00'', status = onduty,
        location = (if day = 0 then currentLocation data else ''Rest Area Mile 45''),
        duration = 1 \<rparr>,
      \<lparr> startTime = ''07:00'', endTime = ''12:00'', status = driving,
        location = (if day = 1 then pickupLocation data else ''Highway I-95''),
        duration = 5 \<rparr>,
      \<lparr> startTime = ''12:00'', endTime = ''13:00'', status = offduty,
        location = ''Truck Stop & Fuel'',
        duration = 1 \<rparr>,
      \<lparr> startTime = ''13:00'', endTime = ''18:00'', status = driving,
        location = (if day = 2 then dropoffLocation data else ''Highway I-75''),
        duration = 5 \<rparr>,
      \<lparr> startTime = ''18:00'', endTime = ''06:00'', status = sleeper,
        location = ''Authorized Parking Area'',
        duration = 12 \<rparr> ]"

text \<open>The object pushed onto \<open>logs\<close>; \<open>dateText\<close> is \<open>date.toISOString().split('T')[0]\<close>.\<close>

definition makeLog :: "TripData \<Rightarrow> nat \<Rightarrow> string \<Rightarrow> ELDLog" where
  "makeLog data day dateText =
    \<lparr> log_id = ''log-'' @ toString_nat (day + 1),
      date = dateText,
      drivingTime = 10,
      onDutyTime = 1,
      sleeperTime = 12,
      offDutyTime = 1,
      segments = daySegments data day \<rparr>"

text \<open>One pass of the loop body: the day's date, its segments, and the pushed log.\<close>

definition dayLog :: "Runtime \<Rightarrow> TripData \<Rightarrow> nat \<Rightarrow> error + ELDLog" where
  "dayLog rt data day =
    (let startDate = Date_parse rt (plannedAt data);
         date_obj = setDate_plus rt startDate day
     in case toISOString rt date_obj of
          Inl e \<Rightarrow> Inl e
        | Inr isoText \<Rightarrow> Inr (makeLog data day (split_T_first isoText)))"

text \<open>\<open>for (let day = 0; day < 3; day++)\<close>, stopping at the first exception.\<close>

function generateLoop :: "Runtime \<Rightarrow> TripData \<Rightarrow> nat \<Rightarrow> ELDLog list \<Rightarrow> error + ELDLog list" where
  "generateLoop rt data day logs =
    (if day < 3 then
       (case dayLog rt data day of
          Inl e \<Rightarrow> Inl e
        | Inr l \<Rightarrow> generateLoop rt data (Suc day) (logs @ [l]))
     else Inr logs)"
  by pat_completeness auto
termination
  by (relation "measure (\<lambda>(rt, data, day, logs). 3 - day)") auto

declare generateLoop.simps [simp del]

text \<open>The value handed to \<open>setEldLogs\<close>, or the exception that escapes.\<close>

definition generateELDLogs :: "Runtime \<Rightarrow> TripData \<Rightarrow> error + ELDLog list" where
  "generateELDLogs rt data = generateLoop rt data 0 []"

text \<open>
  The persisted record's \<open>plannedAt\<close> is an ISO timestamp: it parses to a date, and the
  two days after it are dates too.
\<close>

definition validPlannedAt :: "Runtime \<Rightarrow> TripData \<Rightarrow> bool" where
  "validPlannedAt rt data =
    (case Date_parse rt (plannedAt data) of
       None \<Rightarrow> False
     | Some t \<Rightarrow> list_all (\<lambda>day. Date_addDays rt t day \<noteq> None) [0, 1, 2])"

text \<open>Hours of one duty status in a day's segments.\<close>

definition hoursByStatus :: "DutyStatus \<Rightarrow> LogSegment list \<Rightarrow> real" where
  "hoursByStatus st segs = sum_list (map duration (filter (\<lambda>g. status g = st) segs))"

definition totalsMatchSegments :: "ELDLog \<Rightarrow> bool" where
  "totalsMatchSegments l =
    (drivingTime l = hoursByStatus driving (segments l) \<and>
     onDutyTime l = hoursByStatus onduty (segments l) \<and>
     sleeperTime l = hoursByStatus sleeper (segments l) \<and>
     offDutyTime l = hoursByStatus offduty (segments l))"

text \<open>What the review page shows of a segment: its time window, status and place.\<close>

definition segmentRow :: "LogSegment \<Rightarrow> string \<times> string \<times> DutyStatus \<times> string" where
  "segmentRow g = (startTime g, endTime g, status g, location g)"

section \<open>The browser: storage slot, notices and route\<close>

record Toast =
  title :: string
  description :: string
  variant :: "string option"

record Browser =
  localStorage :: "string \<rightharpoonup> string"
  toasts :: "Toast list"
  path :: string

definition toast :: "Toast \<Rightarrow> Browser \<Rightarrow> Browser" where
  "toast t b = b\<lparr>toasts := toasts b @ [t]\<rparr>"

definition navigate :: "string \<Rightarrow> Browser \<Rightarrow> Browser" where
  "navigate p b = b\<lparr>path := p\<rparr>"

text \<open>\<open>localStorage.setItem(k, v)\<close>: the write, or the exception of a store that refuses it.\<close>

definition setItem :: "Runtime \<Rightarrow> string \<Rightarrow> string \<Rightarrow> Browser \<Rightarrow> error + Browser" where
  "setItem rt k v b =
    (if Storage_accepts rt (localStorage b) k v
     then Inr (b\<lparr>localStorage := (localStorage b)(k \<mapsto> v)\<rparr>)
     else Inl QuotaExceededError)"

section \<open>The review page on activation (ReviewLogs.tsx, useEffect)\<close>




section \<open>The map context (MapContext: initMap, addMarker, clearMarkers, drawRoute)\<close>

text \<open>
  The SDK's map instance, as far as this code drives it: the markers attached to it,
  its sources and layers by id, and the points of the bounds last passed to
  \<open>fitBounds\<close>. \<open>addSource\<close> and \<open>addLayer\<close> append, so that two overlays under one id
  are two entries.
\<close>

record Marker =
  color :: string
  lngLat :: "real \<times> real"

record MapSurface =
  attached :: "Marker list"
  sources :: "(string \<times> (real \<times> real) list) list"
  layers :: "(string \<times> string) list"
  fitted :: "(real \<times> real) list"

record MapContext =
  mapInstance :: "MapSurface option"
  markers :: "Marker list"

definition newMap :: MapSurface where
  "newMap = \<lparr> attached = [], sources = [], layers = [], fitted = [] \<rparr>"

definition initMap :: "bool \<Rightarrow> MapContext \<Rightarrow> MapContext" where
  "initMap container ctx =
    (if mapInstance ctx \<noteq> None \<or> \<not> container then ctx
     else ctx\<lparr>mapInstance := Some newMap\<rparr>)"

definition getMarkerColor :: "LocationType \<Rightarrow> string" where
  "getMarkerColor t =
    (case t of current \<Rightarrow> ''#28a745'' | pickup \<Rightarrow> ''#ffc107'' | dropoff \<Rightarrow> ''#007bff'')"

definition fitMapToBounds :: "MapContext \<Rightarrow> MapContext" where
  "fitMapToBounds ctx =
    (case mapInstance ctx of
       None \<Rightarrow> ctx
     | Some m \<Rightarrow>
         if markers ctx = [] then ctx
         else ctx\<lparr>mapInstance := Some (m\<lparr>fitted := map lngLat (markers ctx)\<rparr>)\<rparr>)"

definition addMarker :: "Location \<Rightarrow> MapContext \<Rightarrow> MapContext" where
  "addMarker loc ctx =
    (case mapInstance ctx of
       None \<Rightarrow> ctx
     | Some m \<Rightarrow>
         let marker = \<lparr> color = getMarkerColor (type loc), lngLat = (lng loc, lat loc) \<rparr>
         in fitMapToBounds
              (ctx\<lparr>mapInstance := Some (m\<lparr>attached := attached m @ [marker]\<rparr>),
                   markers := markers ctx @ [marker]\<rparr>))"

text \<open>\<open>marker.remove()\<close> for each marker of the ref takes that marker off the map.\<close>

definition clearMarkers :: "MapContext \<Rightarrow> MapContext" where
  "clearMarkers ctx =
    ctx\<lparr>mapInstance := map_option (\<lambda>m. m\<lparr>attached := foldr remove1 (markers ctx) (attached m)\<rparr>)
                         (mapInstance ctx),
        markers := []\<rparr>"

definition getLayer :: "MapSurface \<Rightarrow> string \<Rightarrow> bool" where
  "getLayer m layerId = (layerId \<in> set (map fst (layers m)))"

definition removeLayer :: "string \<Rightarrow> MapSurface \<Rightarrow> MapSurface" where
  "removeLayer layerId m = m\<lparr>layers := filter (\<lambda>l. fst l \<noteq> layerId) (layers m)\<rparr>"

definition removeSource :: "string \<Rightarrow> MapSurface \<Rightarrow> MapSurface" where
  "removeSource sourceId m = m\<lparr>sources := filter (\<lambda>l. fst l \<noteq> sourceId) (sources m)\<rparr>"

definition addSource :: "string \<Rightarrow> (real \<times> real) list \<Rightarrow> MapSurface \<Rightarrow> MapSurface" where
  "addSource sourceId coords m = m\<lparr>sources := sources m @ [(sourceId, coords)]\<rparr>"

definition addLayer :: "string \<Rightarrow> string \<Rightarrow> MapSurface \<Rightarrow> MapSurface" where
  "addLayer layerId sourceId m = m\<lparr>layers := layers m @ [(layerId, sourceId)]\<rparr>"

definition drawRoute :: "Location list \<Rightarrow> MapContext \<Rightarrow> MapContext" where
  "drawRoute locations ctx =
    (case mapInstance ctx of
       None \<Rightarrow> ctx
     | Some m \<Rightarrow>
         if length locations < 2 then ctx
         else
           let sourceId = ''route'';
               layerId = ''route-layer'';
               m1 = (if getLayer m layerId then removeSource sourceId (removeLayer layerId m) else m);
               m2 = addSource sourceId (map (\<lambda>loc. (lng loc, lat loc)) locations) m1;
               m3 = addLayer layerId sourceId m2
           in fitMapToBounds (ctx\<lparr>mapInstance := Some m3\<rparr>))"

section \<open>The planning page (PlanTrip.tsx)\<close>

record PlanTripState = TripInputs +
  isCalculating :: bool

definition initialPlanTrip :: PlanTripState where
  "initialPlanTrip =
    \<lparr> currentLocation = [], pickupLocation = [], dropoffLocation = [],
      cycleHours = 35.5, mapLocations = [], isCalculating = False \<rparr>"

text \<open>
  \<open>handleLocationChange\<close>: the address text of the role is set; with coordinates, a
  marker is added and the working set is rebuilt by the updater of \<open>setMapLocations\<close>,
  which redraws the route from two locations on.
\<close>

definition setAddressText :: "LocationType \<Rightarrow> string \<Rightarrow> PlanTripState \<Rightarrow> PlanTripState" where
  "setAddressText t a s =
    (case t of
       current \<Rightarrow> s\<lparr>currentLocation := a\<rparr>
     | pickup \<Rightarrow> s\<lparr>pickupLocation := a\<rparr>
     | dropoff \<Rightarrow> s\<lparr>dropoffLocation := a\<rparr>)"

definition handleLocationChange ::
  "LocationType \<Rightarrow> string \<Rightarrow> Coordinates option \<Rightarrow> PlanTripState \<times> MapContext
     \<Rightarrow> PlanTripState \<times> MapContext" where
  "handleLocationChange t a coordinates sc =
    (let s1 = setAddressText t a (fst sc); ctx = snd sc
     in case coordinates of
          None \<Rightarrow> (s1, ctx)
        | Some c \<Rightarrow>
            let newLocation = \<lparr> lat = lat c, lng = lng c, address = a, type = t \<rparr>;
                ctx1 = addMarker newLocation ctx;
                filtered = filter (\<lambda>loc. type loc \<noteq> t) (mapLocations s1);
                updatedLocations = filtered @ [newLocation];
                ctx2 = (if length updatedLocations \<ge> 2 then drawRoute updatedLocations ctx1 else ctx1)
            in (s1\<lparr>mapLocations := updatedLocations\<rparr>, ctx2))"

text \<open>The handler of the Clear All Fields button.\<close>

definition clearAllFields :: "PlanTripState \<Rightarrow> PlanTripState" where
  "clearAllFields s =
    s\<lparr>currentLocation := [], pickupLocation := [], dropoffLocation := [],
      cycleHours := 0, mapLocations := []\<rparr>"

text \<open>What the user does on the page between submissions.\<close>

datatype PlanEvent =
    LocationChange LocationType string "Coordinates option"
  | ClearAll

fun planStep :: "PlanEvent \<Rightarrow> PlanTripState \<times> MapContext \<Rightarrow> PlanTripState \<times> MapContext" where
  "planStep (LocationChange t a c) sc = handleLocationChange t a c sc"
| "planStep ClearAll sc = (clearAllFields (fst sc), snd sc)"

definition runPlan :: "PlanEvent list \<Rightarrow> PlanTripState \<times> MapContext \<Rightarrow> PlanTripState \<times> MapContext" where
  "runPlan evs sc = fold planStep evs sc"

definition missingInformation :: Toast where
  "missingInformation =
    \<lparr> title = ''Missing Information'',
      description = ''Please fill in all location fields before planning the trip.'',
      variant = Some ''destructive'' \<rparr>"

definition tripPlanned :: Toast where
  "tripPlanned =
    \<lparr> title = ''Trip Planned Successfully'',
      description = ''ELD logs and route have been calculated. Redirecting to review...'',
      variant = None \<rparr>"

text \<open>The \<open>tripData\<close> object built in \<open>handlePlanTrip\<close>, when \<open>new Date()\<close> reads \<open>now\<close>.\<close>

definition tripDataAt :: "Runtime \<Rightarrow> int \<Rightarrow> PlanTripState \<Rightarrow> TripData" where
  "tripDataAt rt now s =
    \<lparr> currentLocation = currentLocation s,
      pickupLocation = pickupLocation s,
      dropoffLocation = dropoffLocation s,
      cycleHours = cycleHours s,
      mapLocations = mapLocations s,
      plannedAt = Date_toISOString rt now \<rparr>"

definition planningError :: Toast where
  "planningError =
    \<lparr> title = ''Planning Error'',
      description = ''Failed to calculate trip. Please check your inputs and try again.'',
      variant = Some ''destructive'' \<rparr>"

text \<open>
  \<open>await new Promise(resolve => setTimeout(resolve, 2000))\<close>: the handler goes on once
  the timer has fired, which is 2000 ms after the click and \<open>lag\<close> ms more, a timer
  never firing early. This is the instant that \<open>new Date()\<close> reads.
\<close>

definition clockAfterDelay :: "int \<Rightarrow> nat \<Rightarrow> int" where
  "clockAfterDelay start lag = start + 2000 + int lag"

text \<open>
  \<open>handlePlanTrip\<close>, run to its end; \<open>start\<close> is the time of the click. The values
  written are those of the render in which the button was clicked. In the try block
  the success notice comes first, then the write to the slot, then the navigation; an
  exception of the write is caught after the success notice has been shown, and the
  handler shows the error notice instead of navigating. The finally block resets
  \<open>isCalculating\<close> on both paths.
\<close>

definition handlePlanTrip ::
  "Runtime \<Rightarrow> int \<Rightarrow> nat \<Rightarrow> PlanTripState \<Rightarrow> Browser \<Rightarrow> Browser \<times> PlanTripState" where
  "handlePlanTrip rt start lag s b =
    (if currentLocation s = [] \<or> pickupLocation s = [] \<or> dropoffLocation s = [] then
       (toast missingInformation b, s)
     else
       let s1 = s\<lparr>isCalculating := True\<rparr>;
           b1 = toast tripPlanned b;
           data = tripDataAt rt (clockAfterDelay start lag) s;
           b3 = (case setItem rt ''currentTrip'' (JSON_stringify rt data) b1 of
                   Inr b2 \<Rightarrow> navigate ''/logs'' b2
                 | Inl e \<Rightarrow> toast planningError b1)
       in (b3, s1\<lparr>isCalculating := False\<rparr>))"

text \<open>
  The runtime reads back what it wrote: \<open>JSON.parse\<close> inverts \<open>JSON.stringify\<close> at the
  record, and the \<open>Date\<close> constructor parses the text of \<open>toISOString\<close> to its instant.
\<close>

definition readsBack :: "Runtime \<Rightarrow> TripData \<Rightarrow> int \<Rightarrow> bool" where
  "readsBack rt data t =
    (JSON_parse rt (JSON_stringify rt data) = Some data \<and>
     Date_parse rt (Date_toISOString rt t) = Some t)"

section \<open>The cycle-hours control (CycleHoursSlider.tsx)\<close>

definition getStatusColor :: "real \<Rightarrow> real \<Rightarrow> string" where
  "getStatusColor v maxHours =
    (let percentage = (v / maxHours) * 100
     in if percentage \<ge> 90 then ''text-destructive''
        else if percentage \<ge> 75 then ''text-warning''
        else ''text-success'')"

definition getStatusIcon :: "real \<Rightarrow> real \<Rightarrow> string" where
  "getStatusIcon v maxHours =
    (let percentage = (v / maxHours) * 100
     in if percentage \<ge> 90 then ''AlertTriangle''
        else if percentage \<ge> 75 then ''Clock''
        else ''CheckCircle'')"

definition getRemainingHours :: "real \<Rightarrow> real \<Rightarrow> real" where
  "getRemainingHours v maxHours = max 0 (maxHours - v)"

text \<open>The class of the progress bar and the two advisory messages of the status card.\<close>

definition barColor :: "real \<Rightarrow> real \<Rightarrow> string" where
  "barColor v maxHours =
    (if v \<ge> maxHours * 0.9 then ''bg-destructive''
     else if v \<ge> maxHours * 0.75 then ''bg-warning''
     else ''bg-success'')"

definition limitMessageShown :: "real \<Rightarrow> real \<Rightarrow> bool" where
  "limitMessageShown v maxHours = (v \<ge> maxHours * 0.9)"

definition monitorMessageShown :: "real \<Rightarrow> real \<Rightarrow> bool" where
  "monitorMessageShown v maxHours = (v \<ge> maxHours * 0.75 \<and> v < maxHours * 0.9)"

section \<open>The location input (LocationInput.tsx: useDebounce and the search effect)\<close>

record GeocodingResult =
  place_name :: string
  center :: "real \<times> real"

text \<open>
  The state of one mounted input. \<open>handler\<close> is the pending timeout of \<open>useDebounce\<close>
  with the value it will set; \<open>inflight\<close> holds the forward searches that have not
  settled, each with the number under which it was issued.
\<close>

record LocationInputState =
  text_value :: string
  debouncedValue :: string
  handler :: "string option"
  suggestions :: "GeocodingResult list"
  showSuggestions :: bool
  isLoading :: bool
  isValid :: bool
  inflight :: "(nat \<times> string) list"
  issued :: nat

datatype Settlement = Features "GeocodingResult list" | Rejected

datatype InputEvent =
    ValueChanged string
  | TimeoutFired
  | Settled nat Settlement

text \<open>The effect on \<open>debouncedSearchTerm\<close>, up to the call of \<open>geocoding.forward\<close>.\<close>

definition searchEffect :: "LocationInputState \<Rightarrow> LocationInputState" where
  "searchEffect s =
    (let s1 = (if length (debouncedValue s) > 2 then
                 s\<lparr>isLoading := True,
                    inflight := inflight s @ [(issued s, debouncedValue s)],
                    issued := Suc (issued s)\<rparr>
               else s\<lparr>suggestions := [], showSuggestions := False\<rparr>)
     in s1\<lparr>isValid := (length (text_value s) > 10)\<rparr>)"

text \<open>The rest of \<open>fetchSuggestions\<close>, when the awaited search settles.\<close>

definition settle :: "Settlement \<Rightarrow> LocationInputState \<Rightarrow> LocationInputState" where
  "settle r s =
    (case r of
       Features fs \<Rightarrow> s\<lparr>suggestions := fs, showSuggestions := True, isLoading := False\<rparr>
     | Rejected \<Rightarrow> s\<lparr>suggestions := [], isLoading := False\<rparr>)"

fun inputStep :: "InputEvent \<Rightarrow> LocationInputState \<Rightarrow> LocationInputState" where
  "inputStep (ValueChanged v) s =
    (if v = text_value s then s else s\<lparr>text_value := v, handler := Some v\<rparr>)"
| "inputStep TimeoutFired s =
    (case handler s of
       None \<Rightarrow> s
     | Some v \<Rightarrow>
         if v = debouncedValue s then s\<lparr>handler := None\<rparr>
         else searchEffect (s\<lparr>handler := None, debouncedValue := v\<rparr>))"
| "inputStep (Settled n r) s =
    (if n \<in> set (map fst (inflight s)) then
       settle r (s\<lparr>inflight := filter (\<lambda>q. fst q \<noteq> n) (inflight s)\<rparr>)
     else s)"

definition runInput :: "InputEvent list \<Rightarrow> LocationInputState \<Rightarrow> LocationInputState" where
  "runInput evs s = fold inputStep evs s"

text \<open>The input after mounting with a text: the first timeout is set, the effect has run.\<close>

definition mountInput :: "string \<Rightarrow> LocationInputState" where
  "mountInput v =
    searchEffect
      \<lparr> text_value = v, debouncedValue = v, handler = Some v, suggestions = [],
        showSuggestions = False, isLoading = False, isValid = False,
        inflight = [], issued = 0 \<rparr>"

text \<open>A search is superseded once a later one has been issued.\<close>

definition superseded :: "nat \<Rightarrow> LocationInputState \<Rightarrow> bool" where
  "superseded n s = (Suc n < issued s)"

section \<open>The route overlay, stated\<close>

text \<open>
  At most one layer \<open>route-layer\<close> and one source \<open>route\<close> are on the map, and the
  source is there only together with the layer.
\<close>

definition singleRoute :: "MapContext \<Rightarrow> bool" where
  "singleRoute ctx =
    (case mapInstance ctx of
       None \<Rightarrow> True
     | Some m \<Rightarrow>
         length (filter (\<lambda>l. fst l = ''route-layer'') (layers m)) \<le> 1 \<and>
         length (filter (\<lambda>l. fst l = ''route'') (sources m)) \<le> 1 \<and>
         (getLayer m ''route-layer'' \<or> ''route'' \<notin> set (map fst (sources m))))"

section \<open>Example inputs\<close>

text \<open>A runtime on UTC that knows the three days of the example trip.\<close>

definition day_ms :: int where
  "day_ms = 86400000"

definition submittedTrip :: TripData where
  "submittedTrip =
    \<lparr> currentLocation = ''A'', pickupLocation = ''B'', dropoffLocation = ''C'',
      cycleHours = 35.5, mapLocations = [],
      plannedAt = ''2024-01-01T00:00:02.000Z'' \<rparr>"

definition submittedText :: string where
  "submittedText = ''{currentLocation:A,pickupLocation:B,dropoffLocation:C,cycleHours:35.5,'' @
                   ''mapLocations:[],plannedAt:2024-01-01T00:00:02.000Z}''"

definition exampleRuntime :: Runtime where
  "exampleRuntime =
    \<lparr> Date_parse = (\<lambda>s.
         if s = ''2024-01-01T00:00:00Z'' \<or> s = ''2024-01-01T00:00:00.000Z'' then Some 1704067200000
         else if s = ''2024-01-01T00:00:02.000Z'' then Some 1704067202000
         else None),
      Date_addDays = (\<lambda>t n. Some (t + int n * day_ms)),
      Date_toISOString = (\<lambda>t.
         if t = 1704067200000 then ''2024-01-01T00:00:00.000Z''
         else if t = 1704067202000 then ''2024-01-01T00:00:02.000Z''
         else if t = 1704067200000 + day_ms then ''2024-01-02T00:00:00.000Z''
         else if t = 1704067200000 + 2 * day_ms then ''2024-01-03T00:00:00.000Z''
         else ''1970-01-01T00:00:00.000Z''),
      JSON_stringify = (\<lambda>d. if d = submittedTrip then submittedText else ''{}''),
      JSON_parse = (\<lambda>s. if s = submittedText then Some submittedTrip else None),
      Storage_accepts = (\<lambda>store k v. True) \<rparr>"

text \<open>The same runtime over a store that takes no write.\<close>

definition fullStoreRuntime :: Runtime where
  "fullStoreRuntime = exampleRuntime\<lparr>Storage_accepts := (\<lambda>store k v. False)\<rparr>"

definition exampleTrip :: TripData where
  "exampleTrip =
    \<lparr> currentLocation = ''A'', pickupLocation = ''B'', dropoffLocation = ''C'',
      cycleHours = 35.5, mapLocations = [],
      plannedAt = ''2024-01-01T00:00:00Z'' \<rparr>"

text \<open>A record as the slot may hold it, with a \<open>plannedAt\<close> that is no date.\<close>

definition undatedTrip :: TripData where
  "undatedTrip = exampleTrip\<lparr>plannedAt := ''not a date''\<rparr>"

definition emptyBrowser :: Browser where
  "emptyBrowser = \<lparr> localStorage = Map.empty, toasts = [], path = ''/plan'' \<rparr>"


definition readyMap :: MapContext where
  "readyMap = initMap True \<lparr> mapInstance = None, markers = [] \<rparr>"

definition boston :: Coordinates where
  "boston = \<lparr> lat = 42.35, lng = -71.06 \<rparr>"

definition albany :: Coordinates where
  "albany = \<lparr> lat = 42.65, lng = -73.75 \<rparr>"

definition filledPlanTrip :: PlanTripState where
  "filledPlanTrip =
    \<lparr> currentLocation = ''A'', pickupLocation = ''B'', dropoffLocation = ''C'',
      cycleHours = 35.5, mapLocations = [], isCalculating = False \<rparr>"

definition oldFeature :: GeocodingResult where
  "oldFeature = \<lparr> place_name = ''Bosque Farms, New Mexico'', center = (-106.7, 34.85) \<rparr>"

definition newFeature :: GeocodingResult where
  "newFeature = \<lparr> place_name = ''Boston, Massachusetts'', center = (-71.06, 42.35) \<rparr>"


text \<open>
  Two searches are issued, the answer to the second arrives, the answer to the first
  is still under way.
\<close>

definition staleTrace :: "InputEvent list" where
  "staleTrace = [ValueChanged ''bos'', TimeoutFired, ValueChanged ''boston'', TimeoutFired,
      Settled 1 (Features [newFeature])]"

section \<open>Properties of the mock log generator\<close>

lemma dayLog_valid:
  assumes "Date_parse rt (plannedAt data) = Some t" and "Date_addDays rt t day = Some t'"
  shows "dayLog rt data day = Inr (makeLog data day (split_T_first (Date_toISOString rt t')))"
  using assms by (simp add: dayLog_def toISOString_def setDate_plus_def Let_def)

lemma generateELDLogs_valid:
  assumes "validPlannedAt rt data"
  shows "\<exists>d0 d1 d2. generateELDLogs rt data = Inr [makeLog data 0 d0, makeLog data 1 d1, makeLog data 2 d2]"
proof -
  from assms obtain t where t: "Date_parse rt (plannedAt data) = Some t"
    by (auto simp: validPlannedAt_def split: option.splits)
  with assms obtain t0 t1 t2 where
    d: "Date_addDays rt t 0 = Some t0" "Date_addDays rt t 1 = Some t1" "Date_addDays rt t 2 = Some t2"
    by (auto simp: validPlannedAt_def)
  let ?l0 = "makeLog data 0 (split_T_first (Date_toISOString rt t0))"
  let ?l1 = "makeLog data 1 (split_T_first (Date_toISOString rt t1))"
  let ?l2 = "makeLog data 2 (split_T_first (Date_toISOString rt t2))"
  have l0: "dayLog rt data 0 = Inr ?l0" using t d(1) by (rule dayLog_valid)
  have l1: "dayLog rt data (Suc 0) = Inr ?l1" using dayLog_valid [OF t d(2)] by simp
  have l2: "dayLog rt data (Suc (Suc 0)) = Inr ?l2"
    using dayLog_valid [OF t d(3)] by (simp add: numeral_2_eq_2)
  have s3: "generateLoop rt data (Suc (Suc (Suc 0))) ls = Inr ls" for ls
    by (subst generateLoop.simps) simp
  have s2: "generateLoop rt data (Suc (Suc 0)) ls = Inr (ls @ [?l2])" for ls
    by (subst generateLoop.simps) (simp add: l2 s3)
  have s1: "generateLoop rt data (Suc 0) ls = Inr (ls @ [?l1, ?l2])" for ls
    by (subst generateLoop.simps) (simp add: l1 s2)
  have s0: "generateLoop rt data 0 ls = Inr (ls @ [?l0, ?l1, ?l2])" for ls
    by (subst generateLoop.simps) (simp add: l0 s1)
  have "generateELDLogs rt data = Inr [?l0, ?l1, ?l2]"
    by (simp add: generateELDLogs_def s0)
  then show ?thesis by blast
qed

lemma generateELDLogs_invalid:
  assumes "Date_parse rt (plannedAt data) = None"
  shows "generateELDLogs rt data = Inl RangeError"
  using assms
  by (simp add: generateELDLogs_def generateLoop.simps [of rt data 0] dayLog_def
      toISOString_def setDate_plus_def)

lemma exampleTrip_valid: "validPlannedAt exampleRuntime exampleTrip"
  by (simp add: validPlannedAt_def exampleRuntime_def exampleTrip_def)

lemma daySegments_length: "length (daySegments data day) = 5"
  by (simp add: daySegments_def)

lemma daySegments_total: "sum_list (map duration (daySegments data day)) = 24"
  by (simp add: daySegments_def)

lemma segments_makeLog: "segments (makeLog data day d) = daySegments data day"
  by (simp add: makeLog_def)


lemma dayLog_out_of_range:
  assumes "Date_parse rt (plannedAt data) = Some t" and "Date_addDays rt t day = None"
  shows "dayLog rt data day = Inl RangeError"
  using assms by (simp add: dayLog_def toISOString_def setDate_plus_def Let_def)

lemma generateELDLogs_out_of_range:
  assumes t: "Date_parse rt (plannedAt data) = Some t"
    and bad: "Date_addDays rt t 0 = None \<or> Date_addDays rt t 1 = None \<or> Date_addDays rt t 2 = None"
  shows "generateELDLogs rt data = Inl RangeError"
proof -
  have step: "generateLoop rt data day ls =
      (case dayLog rt data day of Inl e \<Rightarrow> Inl e
       | Inr l \<Rightarrow> generateLoop rt data (Suc day) (ls @ [l]))" if "day < 3" for day ls
    using that by (subst generateLoop.simps) simp
  show ?thesis
  proof (cases "Date_addDays rt t 0")
    case None
    then show ?thesis
      by (simp add: generateELDLogs_def step dayLog_out_of_range [OF t])
  next
    case d0: (Some t0)
    show ?thesis
    proof (cases "Date_addDays rt t 1")
      case None
      then have "dayLog rt data (Suc 0) = Inl RangeError"
        using dayLog_out_of_range [OF t, of 1] by simp
      then show ?thesis
        by (simp add: generateELDLogs_def step dayLog_valid [OF t d0])
    next
      case d1: (Some t1)
      with d0 bad have "Date_addDays rt t 2 = None" by simp
      then have l2: "dayLog rt data (Suc (Suc 0)) = Inl RangeError"
        using dayLog_out_of_range [OF t, of 2] by (simp add: numeral_2_eq_2)
      have l1: "dayLog rt data (Suc 0) = Inr (makeLog data 1 (split_T_first (Date_toISOString rt t1)))"
        using dayLog_valid [OF t d1] by simp
      show ?thesis
        by (simp add: generateELDLogs_def step dayLog_valid [OF t d0] l1 l2)
    qed
  qed
qed

lemma generateELDLogs_not_valid:
  assumes "\<not> validPlannedAt rt data"
  shows "generateELDLogs rt data = Inl RangeError"
proof (cases "Date_parse rt (plannedAt data)")
  case None
  then show ?thesis by (rule generateELDLogs_invalid)
next
  case (Some t)
  with assms have "Date_addDays rt t 0 = None \<or> Date_addDays rt t 1 = None \<or> Date_addDays rt t 2 = None"
    by (simp add: validPlannedAt_def)
  with Some show ?thesis by (rule generateELDLogs_out_of_range)
qed

lemma undatedTrip_not_valid: "\<not> validPlannedAt exampleRuntime undatedTrip"
  by (simp add: validPlannedAt_def exampleRuntime_def undatedTrip_def exampleTrip_def)

text \<open>
  C1, as amended. For every trip record whose \<open>plannedAt\<close> parses to a date that has
  its two following days within the range of \<open>Date\<close>, the generator returns exactly 3
  daily logs, each with exactly 5 segments whose durations sum to 24 hours. For every
  other record it raises \<open>RangeError\<close> and returns no logs.
\<close>

theorem generateELDLogs_three_days_or_raise:
  "(validPlannedAt rt data \<longrightarrow>
      (\<exists>logs. generateELDLogs rt data = Inr logs \<and> length logs = 3 \<and>
         (\<forall>l \<in> set logs. length (segments l) = 5 \<and> sum_list (map duration (segments l)) = 24))) \<and>
   (\<not> validPlannedAt rt data \<longrightarrow> generateELDLogs rt data = Inl RangeError)"
proof (intro conjI impI)
  assume v: "validPlannedAt rt data"
  from generateELDLogs_valid [OF v] obtain d0 d1 d2 where
    "generateELDLogs rt data = Inr [makeLog data 0 d0, makeLog data 1 d1, makeLog data 2 d2]"
    by blast
  then show "\<exists>logs. generateELDLogs rt data = Inr logs \<and> length logs = 3 \<and>
         (\<forall>l \<in> set logs. length (segments l) = 5 \<and> sum_list (map duration (segments l)) = 24)"
    by (simp add: segments_makeLog daySegments_length daySegments_total)
next
  assume "\<not> validPlannedAt rt data"
  then show "generateELDLogs rt data = Inl RangeError" by (rule generateELDLogs_not_valid)
qed

theorem generateELDLogs_three_days_or_raise_witness:
  "validPlannedAt exampleRuntime exampleTrip \<and>
   (\<exists>logs. generateELDLogs exampleRuntime exampleTrip = Inr logs \<and> length logs = 3 \<and>
      (\<forall>l \<in> set logs. length (segments l) = 5 \<and> sum_list (map duration (segments l)) = 24)) \<and>
   \<not> validPlannedAt exampleRuntime undatedTrip \<and>
   generateELDLogs exampleRuntime undatedTrip = Inl RangeError"
  using generateELDLogs_three_days_or_raise [of exampleRuntime exampleTrip]
        generateELDLogs_three_days_or_raise [of exampleRuntime undatedTrip]
        exampleTrip_valid undatedTrip_not_valid
  by simp

text \<open>
  C1 as stated speaks of every trip record. The page takes the record from the slot as
  it is; on a record whose \<open>plannedAt\<close> is no date, \<open>toISOString\<close> raises in the first
  pass of the loop and no log is returned.
\<close>

theorem undated_record_counterexample:
  "generateELDLogs exampleRuntime undatedTrip = Inl RangeError"
  by (rule generateELDLogs_invalid)
     (simp add: exampleRuntime_def undatedTrip_def exampleTrip_def)

lemma daySegments_rows:
  "map segmentRow (daySegments data day) =
    [ (''06:00'', ''07:00'', onduty, if day = 0 then currentLocation data else ''Rest Area Mile 45''),
      (''07:00'', ''12:00'', driving, if day = 1 then pickupLocation data else ''Highway I-95''),
      (''12:00'', ''13:00'', offduty, ''Truck Stop & Fuel''),
      (''13:00'', ''18:00'', driving, if day = 2 then dropoffLocation data else ''Highway I-75''),
      (''18:00'', ''06:00'', sleeper, ''Authorized Parking Area'') ]"
  by (simp add: daySegments_def segmentRow_def)

text \<open>
  C3. In the generated logs the first segment of day 0 is at the record's current
  location, the 07:00-12:00 driving segment of day 1 at its pickup location, the
  13:00-18:00 driving segment of day 2 at its drop-off location, and every other
  segment at a fixed placeholder.
\<close>

theorem generateELDLogs_locations:
  assumes "validPlannedAt rt data"
  shows "\<exists>l0 l1 l2. generateELDLogs rt data = Inr [l0, l1, l2] \<and>
     map segmentRow (segments l0) =
       [ (''06:00'', ''07:00'', onduty, currentLocation data),
         (''07:00'', ''12:00'', driving, ''Highway I-95''),
         (''12:00'', ''13:00'', offduty, ''Truck Stop & Fuel''),
         (''13:00'', ''18:00'', driving, ''Highway I-75''),
         (''18:00'', ''06:00'', sleeper, ''Authorized Parking Area'') ] \<and>
     map segmentRow (segments l1) =
       [ (''06:00'', ''07:00'', onduty, ''Rest Area Mile 45''),
         (''07:00'', ''12:00'', driving, pickupLocation data),
         (''12:00'', ''13:00'', offduty, ''Truck Stop & Fuel''),
         (''13:00'', ''18:00'', driving, ''Highway I-75''),
         (''18:00'', ''06:00'', sleeper, ''Authorized Parking Area'') ] \<and>
     map segmentRow (segments l2) =
       [ (''06:00'', ''07:00'', onduty, ''Rest Area Mile 45''),
         (''07:00'', ''12:00'', driving, ''Highway I-95''),
         (''12:00'', ''13:00'', offduty, ''Truck Stop & Fuel''),
         (''13:00'', ''18:00'', driving, dropoffLocation data),
         (''18:00'', ''06:00'', sleeper, ''Authorized Parking Area'') ]"
proof -
  from generateELDLogs_valid [OF assms] obtain d0 d1 d2 where
    "generateELDLogs rt data = Inr [makeLog data 0 d0, makeLog data 1 d1, makeLog data 2 d2]"
    by blast
  then show ?thesis
    by (simp add: segments_makeLog daySegments_rows)
qed

theorem generateELDLogs_locations_witness:
  "validPlannedAt exampleRuntime exampleTrip \<and>
   (\<exists>l0 l1 l2. generateELDLogs exampleRuntime exampleTrip = Inr [l0, l1, l2] \<and>
     map segmentRow (segments l0) =
       [ (''06:00'', ''07:00'', onduty, ''A''),
         (''07:00'', ''12:00'', driving, ''Highway I-95''),
         (''12:00'', ''13:00'', offduty, ''Truck Stop & Fuel''),
         (''13:00'', ''18:00'', driving, ''Highway I-75''),
         (''18:00'', ''06:00'', sleeper, ''Authorized Parking Area'') ] \<and>
     map segmentRow (segments l1) =
       [ (''06:00'', ''07:00'', onduty, ''Rest Area Mile 45''),
         (''07:00'', ''12:00'', driving, ''B''),
         (''12:00'', ''13:00'', offduty, ''Truck Stop & Fuel''),
         (''13:00'', ''18:00'', driving, ''Highway I-75''),
         (''18:00'', ''06:00'', sleeper, ''Authorized Parking Area'') ] \<and>
     map segmentRow (segments l2) =
       [ (''06:00'', ''07:00'', onduty, ''Rest Area Mile 45''),
         (''07:00'', ''12:00'', driving, ''Highway I-95''),
         (''12:00'', ''13:00'', offduty, ''Truck Stop & Fuel''),
         (''13:00'', ''18:00'', driving, ''C''),
         (''18:00'', ''06:00'', sleeper, ''Authorized Parking Area'') ])"
  using generateELDLogs_locations [OF exampleTrip_valid] exampleTrip_valid
  by (simp add: exampleTrip_def)

lemma hours_daySegments:
  "hoursByStatus driving (daySegments data day) = 10"
  "hoursByStatus onduty (daySegments data day) = 1"
  "hoursByStatus sleeper (daySegments data day) = 12"
  "hoursByStatus offduty (daySegments data day) = 1"
  by (simp_all add: hoursByStatus_def daySegments_def)

lemma totalsMatch_makeLog: "totalsMatchSegments (makeLog data day d)"
  by (simp add: totalsMatchSegments_def segments_makeLog hours_daySegments) (simp add: makeLog_def)

text \<open>
  C4, as amended. The per-day totals are the literal constants 10 (driving), 1 (on
  duty), 12 (sleeper) and 1 (off duty), and in every generated log they are equal to
  the sums of that day's segment durations grouped by status.
\<close>

theorem totals_equal_segment_sums:
  assumes "validPlannedAt rt data"
  shows "\<exists>logs. generateELDLogs rt data = Inr logs \<and>
     (\<forall>l \<in> set logs.
        drivingTime l = 10 \<and> onDutyTime l = 1 \<and> sleeperTime l = 12 \<and> offDutyTime l = 1 \<and>
        drivingTime l = hoursByStatus driving (segments l) \<and>
        onDutyTime l = hoursByStatus onduty (segments l) \<and>
        sleeperTime l = hoursByStatus sleeper (segments l) \<and>
        offDutyTime l = hoursByStatus offduty (segments l))"
proof -
  from generateELDLogs_valid [OF assms] obtain d0 d1 d2 where
    "generateELDLogs rt data = Inr [makeLog data 0 d0, makeLog data 1 d1, makeLog data 2 d2]"
    by blast
  moreover have "drivingTime (makeLog data day d) = 10 \<and> onDutyTime (makeLog data day d) = 1 \<and>
     sleeperTime (makeLog data day d) = 12 \<and> offDutyTime (makeLog data day d) = 1" for day d
    by (simp add: makeLog_def)
  ultimately show ?thesis
    by (simp add: segments_makeLog hours_daySegments)
qed

theorem totals_equal_segment_sums_witness:
  "validPlannedAt exampleRuntime exampleTrip \<and>
   (\<exists>logs. generateELDLogs exampleRuntime exampleTrip = Inr logs \<and>
     (\<forall>l \<in> set logs.
        drivingTime l = 10 \<and> onDutyTime l = 1 \<and> sleeperTime l = 12 \<and> offDutyTime l = 1 \<and>
        drivingTime l = hoursByStatus driving (segments l) \<and>
        onDutyTime l = hoursByStatus onduty (segments l) \<and>
        sleeperTime l = hoursByStatus sleeper (segments l) \<and>
        offDutyTime l = hoursByStatus offduty (segments l)))"
  using totals_equal_segment_sums [OF exampleTrip_valid] exampleTrip_valid by simp

text \<open>
  C4 as stated says that the constant totals differ from the sums by status. On the
  example trip the totals of all three logs agree with the sums.
\<close>

theorem totals_differ_counterexample:
  "map_sum id (map totalsMatchSegments) (generateELDLogs exampleRuntime exampleTrip)
     = Inr [True, True, True]"
proof -
  from generateELDLogs_valid [OF exampleTrip_valid] obtain d0 d1 d2 where
    "generateELDLogs exampleRuntime exampleTrip =
       Inr [makeLog exampleTrip 0 d0, makeLog exampleTrip 1 d1, makeLog exampleTrip 2 d2]"
    by blast
  then show ?thesis by (simp add: totalsMatch_makeLog)
qed



section \<open>Properties of the cycle-hours control\<close>

lemma statusColor_70:
  "getStatusColor v 70 =
    (if 63 \<le> v then ''text-destructive'' else if 52.5 \<le> v then ''text-warning'' else ''text-success'')"
  by (simp add: getStatusColor_def Let_def)

lemma statusIcon_70:
  "getStatusIcon v 70 =
    (if 63 \<le> v then ''AlertTriangle'' else if 52.5 \<le> v then ''Clock'' else ''CheckCircle'')"
  by (simp add: getStatusIcon_def Let_def)

lemma barColor_70:
  "barColor v 70 =
    (if 63 \<le> v then ''bg-destructive'' else if 52.5 \<le> v then ''bg-warning'' else ''bg-success'')"
  by (simp add: barColor_def)

lemma messages_70:
  "limitMessageShown v 70 = (63 \<le> v)"
  "monitorMessageShown v 70 = (52.5 \<le> v \<and> v < 63)"
  by (simp_all add: limitMessageShown_def monitorMessageShown_def)

text \<open>
  C5. For every value \<open>v\<close> in [0, 70] with a maximum of 70, the control shows the
  normal treatment when v/70 is below 75%, the warning treatment (with the monitor
  message) from 75% to below 90%, and the critical treatment (with the limit message)
  from 90% on; 0 is normal, 52.5 is warning and 70 is critical.
\<close>

theorem cycleHours_severity:
  assumes "0 \<le> v" and "v \<le> 70"
  shows "(v / 70 < 0.75 \<longrightarrow>
            getStatusColor v 70 = ''text-success'' \<and> getStatusIcon v 70 = ''CheckCircle'' \<and>
            barColor v 70 = ''bg-success'' \<and>
            \<not> monitorMessageShown v 70 \<and> \<not> limitMessageShown v 70) \<and>
         (0.75 \<le> v / 70 \<and> v / 70 < 0.9 \<longrightarrow>
            getStatusColor v 70 = ''text-warning'' \<and> getStatusIcon v 70 = ''Clock'' \<and>
            barColor v 70 = ''bg-warning'' \<and>
            monitorMessageShown v 70 \<and> \<not> limitMessageShown v 70) \<and>
         (0.9 \<le> v / 70 \<longrightarrow>
            getStatusColor v 70 = ''text-destructive'' \<and> getStatusIcon v 70 = ''AlertTriangle'' \<and>
            barColor v 70 = ''bg-destructive'' \<and>
            \<not> monitorMessageShown v 70 \<and> limitMessageShown v 70) \<and>
         getStatusColor 0 70 = ''text-success'' \<and>
         getStatusColor 52.5 70 = ''text-warning'' \<and>
         getStatusColor 70 70 = ''text-destructive''"
  by (simp add: statusColor_70 statusIcon_70 barColor_70 messages_70)

theorem cycleHours_severity_witness:
  "(0::real) \<le> 0 \<and> (0::real) \<le> 70 \<and> (0::real) / 70 < 0.75 \<and>
   getStatusColor 0 70 = ''text-success'' \<and> \<not> monitorMessageShown 0 70 \<and> \<not> limitMessageShown 0 70 \<and>
   (0::real) \<le> 52.5 \<and> (52.5::real) \<le> 70 \<and> (0.75::real) \<le> 52.5 / 70 \<and> (52.5::real) / 70 < 0.9 \<and>
   getStatusColor 52.5 70 = ''text-warning'' \<and> monitorMessageShown 52.5 70 \<and>
   (0::real) \<le> 70 \<and> (70::real) \<le> 70 \<and> (0.9::real) \<le> 70 / 70 \<and>
   getStatusColor 70 70 = ''text-destructive'' \<and> limitMessageShown 70 70"
  using cycleHours_severity [of 0] cycleHours_severity [of "52.5"] cycleHours_severity [of 70]
  by simp

section \<open>Properties of the review page\<close>



section \<open>Properties of the planning page\<close>

text \<open>
  C10. Clear All Fields sets the three address texts to the empty text, the cycle
  hours to 0 (not to the initial 35.5) and the working set of locations to the empty
  list; \<open>isCalculating\<close> and the map context stay as they are.
\<close>

theorem clearAllFields_effect:
  "currentLocation (clearAllFields s) = [] \<and>
   pickupLocation (clearAllFields s) = [] \<and>
   dropoffLocation (clearAllFields s) = [] \<and>
   cycleHours (clearAllFields s) = 0 \<and>
   cycleHours (clearAllFields s) \<noteq> cycleHours initialPlanTrip \<and>
   mapLocations (clearAllFields s) = [] \<and>
   isCalculating (clearAllFields s) = isCalculating s \<and>
   planStep ClearAll (s, ctx) = (clearAllFields s, ctx)"
  by (simp add: clearAllFields_def initialPlanTrip_def)

lemma submitted_is_tripDataAt:
  "tripDataAt exampleRuntime (clockAfterDelay 1704067200000 0) filledPlanTrip = submittedTrip"
  "tripDataAt fullStoreRuntime (clockAfterDelay 1704067200000 0) filledPlanTrip = submittedTrip"
  by (simp_all add: tripDataAt_def clockAfterDelay_def filledPlanTrip_def submittedTrip_def
      exampleRuntime_def fullStoreRuntime_def day_ms_def)

lemma example_readsBack: "readsBack exampleRuntime submittedTrip (clockAfterDelay 1704067200000 0)"
  by (simp add: readsBack_def clockAfterDelay_def exampleRuntime_def day_ms_def)

lemma handlePlanTrip_rejects:
  assumes "currentLocation s = [] \<or> pickupLocation s = [] \<or> dropoffLocation s = []"
  shows "handlePlanTrip rt start lag s b = (b\<lparr>toasts := toasts b @ [missingInformation]\<rparr>, s)"
  using assms by (auto simp add: handlePlanTrip_def toast_def)

lemma handlePlanTrip_stores:
  assumes "currentLocation s \<noteq> []" "pickupLocation s \<noteq> []" "dropoffLocation s \<noteq> []"
    and "Storage_accepts rt (localStorage b) ''currentTrip''
           (JSON_stringify rt (tripDataAt rt (clockAfterDelay start lag) s))"
  shows "handlePlanTrip rt start lag s b =
     (b\<lparr>localStorage := (localStorage b)(''currentTrip'' \<mapsto>
            JSON_stringify rt (tripDataAt rt (clockAfterDelay start lag) s)),
         toasts := toasts b @ [tripPlanned], path := ''/logs''\<rparr>,
      s\<lparr>isCalculating := False\<rparr>)"
  using assms
  by (simp add: handlePlanTrip_def toast_def setItem_def navigate_def Let_def)

lemma handlePlanTrip_refused:
  assumes "currentLocation s \<noteq> []" "pickupLocation s \<noteq> []" "dropoffLocation s \<noteq> []"
    and "\<not> Storage_accepts rt (localStorage b) ''currentTrip''
           (JSON_stringify rt (tripDataAt rt (clockAfterDelay start lag) s))"
  shows "handlePlanTrip rt start lag s b =
     (b\<lparr>toasts := toasts b @ [tripPlanned, planningError]\<rparr>, s\<lparr>isCalculating := False\<rparr>)"
  using assms
  by (simp add: handlePlanTrip_def toast_def setItem_def navigate_def Let_def)

lemma notices_differ: "tripPlanned \<noteq> missingInformation"
  by (simp add: tripPlanned_def missingInformation_def)

text \<open>
  C2, as amended. Submitting shows the validation notice and leaves the store as it
  is exactly when one of the three address texts is empty. When all three are
  non-empty, the cycle hours lie in [0, 70] and the store accepts the write, the
  submission writes the slot \<open>currentTrip\<close>, and nothing else, with the serialisation
  of the record that holds the five values of the page at submission and the ISO text
  of the clock as \<open>plannedAt\<close>, read at least 2000 ms after the start, and goes to the
  review route; with built-ins that read back what they wrote, the slot parses to a
  record with these five values and a \<open>plannedAt\<close> that parses to an instant at or
  after the start. When the store refuses the write, the error notice follows the
  success notice, no record is written and the route stays.
\<close>

theorem handlePlanTrip_outcomes:
  fixes rt :: Runtime and start :: int and lag :: nat and s :: PlanTripState and b :: Browser
  defines "now \<equiv> clockAfterDelay start lag"
    and "data \<equiv> tripDataAt rt (clockAfterDelay start lag) s"
    and "b' \<equiv> fst (handlePlanTrip rt start lag s b)"
  shows
  "((toasts b' = toasts b @ [missingInformation] \<and> localStorage b' = localStorage b)
      \<longleftrightarrow> (currentLocation s = [] \<or> pickupLocation s = [] \<or> dropoffLocation s = [])) \<and>
   (currentLocation s \<noteq> [] \<and> pickupLocation s \<noteq> [] \<and> dropoffLocation s \<noteq> [] \<and>
    0 \<le> cycleHours s \<and> cycleHours s \<le> 70 \<and>
    Storage_accepts rt (localStorage b) ''currentTrip'' (JSON_stringify rt data) \<longrightarrow>
      localStorage b' = (localStorage b)(''currentTrip'' \<mapsto> JSON_stringify rt data) \<and>
      toasts b' = toasts b @ [tripPlanned] \<and> path b' = ''/logs'' \<and>
      currentLocation data = currentLocation s \<and>
      pickupLocation data = pickupLocation s \<and>
      dropoffLocation data = dropoffLocation s \<and>
      cycleHours data = cycleHours s \<and>
      mapLocations data = mapLocations s \<and>
      plannedAt data = Date_toISOString rt now \<and> start + 2000 \<le> now \<and>
      (readsBack rt data now \<longrightarrow>
         (\<exists>stored d t.
            localStorage b' ''currentTrip'' = Some stored \<and> JSON_parse rt stored = Some d \<and>
            currentLocation d = currentLocation s \<and>
            pickupLocation d = pickupLocation s \<and>
            dropoffLocation d = dropoffLocation s \<and>
            cycleHours d = cycleHours s \<and>
            mapLocations d = mapLocations s \<and>
            Date_parse rt (plannedAt d) = Some t \<and> start \<le> t))) \<and>
   (currentLocation s \<noteq> [] \<and> pickupLocation s \<noteq> [] \<and> dropoffLocation s \<noteq> [] \<and>
    \<not> Storage_accepts rt (localStorage b) ''currentTrip'' (JSON_stringify rt data) \<longrightarrow>
      localStorage b' = localStorage b \<and>
      toasts b' = toasts b @ [tripPlanned, planningError] \<and> path b' = path b)"
proof (cases "currentLocation s = [] \<or> pickupLocation s = [] \<or> dropoffLocation s = []")
  case True
  then show ?thesis unfolding b'_def by (auto simp add: handlePlanTrip_rejects)
next
  case False
  then have ne: "currentLocation s \<noteq> []" "pickupLocation s \<noteq> []" "dropoffLocation s \<noteq> []"
    by simp_all
  have fields: "currentLocation data = currentLocation s" "pickupLocation data = pickupLocation s"
    "dropoffLocation data = dropoffLocation s" "cycleHours data = cycleHours s"
    "mapLocations data = mapLocations s" "plannedAt data = Date_toISOString rt now"
    by (simp_all add: data_def now_def tripDataAt_def)
  have late: "start + 2000 \<le> now" by (simp add: now_def clockAfterDelay_def)
  show ?thesis
  proof (cases "Storage_accepts rt (localStorage b) ''currentTrip'' (JSON_stringify rt data)")
    case acc: True
    then have run: "handlePlanTrip rt start lag s b =
       (b\<lparr>localStorage := (localStorage b)(''currentTrip'' \<mapsto> JSON_stringify rt data),
           toasts := toasts b @ [tripPlanned], path := ''/logs''\<rparr>,
        s\<lparr>isCalculating := False\<rparr>)"
      unfolding data_def by (rule handlePlanTrip_stores [OF ne])
    have reread: "\<exists>stored d t.
            localStorage b' ''currentTrip'' = Some stored \<and> JSON_parse rt stored = Some d \<and>
            currentLocation d = currentLocation s \<and>
            pickupLocation d = pickupLocation s \<and>
            dropoffLocation d = dropoffLocation s \<and>
            cycleHours d = cycleHours s \<and>
            mapLocations d = mapLocations s \<and>
            Date_parse rt (plannedAt d) = Some t \<and> start \<le> t" if rb: "readsBack rt data now"
    proof (intro exI conjI)
      show "localStorage b' ''currentTrip'' = Some (JSON_stringify rt data)"
        by (simp add: b'_def run)
      show "JSON_parse rt (JSON_stringify rt data) = Some data"
        using rb by (simp add: readsBack_def)
      show "Date_parse rt (plannedAt data) = Some now"
        using rb by (simp add: readsBack_def fields)
      show "start \<le> now" using late by simp
    qed (rule fields)+
    show ?thesis
      using False acc fields late reread notices_differ by (simp add: b'_def run)
  next
    case ref: False
    then have run: "handlePlanTrip rt start lag s b =
       (b\<lparr>toasts := toasts b @ [tripPlanned, planningError]\<rparr>, s\<lparr>isCalculating := False\<rparr>)"
      unfolding data_def by (rule handlePlanTrip_refused [OF ne])
    show ?thesis
      using False ref by (simp add: b'_def run)
  qed
qed


theorem handlePlanTrip_outcomes_witness:
  "toasts (fst (handlePlanTrip exampleRuntime 1704067200000 0
                  (filledPlanTrip\<lparr>pickupLocation := []\<rparr>) emptyBrowser)) = [missingInformation] \<and>
   localStorage (fst (handlePlanTrip exampleRuntime 1704067200000 0
                  (filledPlanTrip\<lparr>pickupLocation := []\<rparr>) emptyBrowser)) = Map.empty \<and>
   currentLocation filledPlanTrip \<noteq> [] \<and> pickupLocation filledPlanTrip \<noteq> [] \<and>
   dropoffLocation filledPlanTrip \<noteq> [] \<and>
   0 \<le> cycleHours filledPlanTrip \<and> cycleHours filledPlanTrip \<le> 70 \<and>
   Storage_accepts exampleRuntime (localStorage emptyBrowser) ''currentTrip''
     (JSON_stringify exampleRuntime submittedTrip) \<and>
   readsBack exampleRuntime submittedTrip (clockAfterDelay 1704067200000 0) \<and>
   localStorage (fst (handlePlanTrip exampleRuntime 1704067200000 0 filledPlanTrip emptyBrowser))
     = [''currentTrip'' \<mapsto> submittedText] \<and>
   path (fst (handlePlanTrip exampleRuntime 1704067200000 0 filledPlanTrip emptyBrowser)) = ''/logs'' \<and>
   (\<exists>stored d t.
      localStorage (fst (handlePlanTrip exampleRuntime 1704067200000 0 filledPlanTrip emptyBrowser))
        ''currentTrip'' = Some stored \<and>
      JSON_parse exampleRuntime stored = Some d \<and>
      currentLocation d = ''A'' \<and> pickupLocation d = ''B'' \<and> dropoffLocation d = ''C'' \<and>
      cycleHours d = 35.5 \<and> mapLocations d = [] \<and>
      Date_parse exampleRuntime (plannedAt d) = Some t \<and> 1704067200000 \<le> t) \<and>
   \<not> Storage_accepts fullStoreRuntime (localStorage emptyBrowser) ''currentTrip''
     (JSON_stringify fullStoreRuntime submittedTrip) \<and>
   localStorage (fst (handlePlanTrip fullStoreRuntime 1704067200000 0 filledPlanTrip emptyBrowser))
     = Map.empty \<and>
   toasts (fst (handlePlanTrip fullStoreRuntime 1704067200000 0 filledPlanTrip emptyBrowser))
     = [tripPlanned, planningError]"
proof -
  have acc: "Storage_accepts exampleRuntime (localStorage emptyBrowser) ''currentTrip''
     (JSON_stringify exampleRuntime submittedTrip)"
    by (simp add: exampleRuntime_def)
  have ref: "\<not> Storage_accepts fullStoreRuntime (localStorage emptyBrowser) ''currentTrip''
     (JSON_stringify fullStoreRuntime submittedTrip)"
    by (simp add: fullStoreRuntime_def)
  have serial: "JSON_stringify exampleRuntime submittedTrip = submittedText"
    by (simp add: exampleRuntime_def)
  have inputs: "currentLocation filledPlanTrip = ''A''" "pickupLocation filledPlanTrip = ''B''"
    "dropoffLocation filledPlanTrip = ''C''" "cycleHours filledPlanTrip = 35.5"
    "mapLocations filledPlanTrip = []"
    by (simp_all add: filledPlanTrip_def)
  have empty: "localStorage emptyBrowser = Map.empty" "toasts emptyBrowser = []"
    by (simp_all add: emptyBrowser_def)
  show ?thesis
    using handlePlanTrip_outcomes
            [of exampleRuntime 1704067200000 0 "filledPlanTrip\<lparr>pickupLocation := []\<rparr>" emptyBrowser]
          handlePlanTrip_outcomes [of exampleRuntime 1704067200000 0 filledPlanTrip emptyBrowser]
          handlePlanTrip_outcomes [of fullStoreRuntime 1704067200000 0 filledPlanTrip emptyBrowser]
          acc ref example_readsBack
    by (auto simp add: submitted_is_tripDataAt serial inputs empty)
qed

text \<open>
  C2 as stated has every submission with three non-empty texts write a record. Over a
  store that refuses the write, the three texts are non-empty, the cycle hours are
  35.5, and the slot stays empty: the error notice is shown and the page stays on the
  planning route.
\<close>

theorem full_store_counterexample:
  "currentLocation filledPlanTrip \<noteq> [] \<and> pickupLocation filledPlanTrip \<noteq> [] \<and>
   dropoffLocation filledPlanTrip \<noteq> [] \<and>
   0 \<le> cycleHours filledPlanTrip \<and> cycleHours filledPlanTrip \<le> 70 \<and>
   localStorage (fst (handlePlanTrip fullStoreRuntime 1704067200000 0 filledPlanTrip emptyBrowser))
     ''currentTrip'' = None \<and>
   toasts (fst (handlePlanTrip fullStoreRuntime 1704067200000 0 filledPlanTrip emptyBrowser))
     = [tripPlanned, planningError] \<and>
   path (fst (handlePlanTrip fullStoreRuntime 1704067200000 0 filledPlanTrip emptyBrowser)) = ''/plan''"
proof -
  have ne: "currentLocation filledPlanTrip \<noteq> []" "pickupLocation filledPlanTrip \<noteq> []"
    "dropoffLocation filledPlanTrip \<noteq> []"
    by (simp_all add: filledPlanTrip_def)
  have "\<not> Storage_accepts fullStoreRuntime (localStorage emptyBrowser) ''currentTrip''
           (JSON_stringify fullStoreRuntime
              (tripDataAt fullStoreRuntime (clockAfterDelay 1704067200000 0) filledPlanTrip))"
    by (simp add: fullStoreRuntime_def)
  from handlePlanTrip_refused [OF ne this] show ?thesis
    by (simp add: emptyBrowser_def filledPlanTrip_def)
qed

lemma mapLocations_setAddressText: "mapLocations (setAddressText t a s) = mapLocations s"
  by (cases t) (simp_all add: setAddressText_def)

lemma mapLocations_handleLocationChange:
  "mapLocations (fst (handleLocationChange t a coordinates sc)) =
    (case coordinates of
       None \<Rightarrow> mapLocations (fst sc)
     | Some c \<Rightarrow> filter (\<lambda>loc. type loc \<noteq> t) (mapLocations (fst sc))
                  @ [\<lparr> lat = lat c, lng = lng c, address = a, type = t \<rparr>])"
  by (simp add: handleLocationChange_def Let_def mapLocations_setAddressText split: option.splits)

lemma distinct_roles_filter:
  "distinct (map type locs) \<Longrightarrow> distinct (map type (filter P locs))"
  by (induction locs) auto

lemma handleLocationChange_distinct:
  assumes "distinct (map type (mapLocations (fst sc)))"
  shows "distinct (map type (mapLocations (fst (handleLocationChange t a coordinates sc))))"
  using assms
  by (auto simp add: mapLocations_handleLocationChange distinct_roles_filter split: option.splits)

lemma planStep_distinct:
  assumes "distinct (map type (mapLocations (fst sc)))"
  shows "distinct (map type (mapLocations (fst (planStep ev sc))))"
  using assms by (cases ev) (simp_all add: handleLocationChange_distinct clearAllFields_def)

lemma runPlan_distinct:
  assumes "distinct (map type (mapLocations (fst sc)))"
  shows "distinct (map type (mapLocations (fst (runPlan evs sc))))"
  using assms unfolding runPlan_def
proof (induction evs arbitrary: sc)
  case Nil
  then show ?case by simp
next
  case (Cons ev evs)
  from Cons.prems have "distinct (map type (mapLocations (fst (planStep ev sc))))"
    by (rule planStep_distinct)
  then show ?case using Cons.IH by simp
qed

lemma distinct_roles_at_most_one:
  assumes "distinct (map type locs)"
  shows "length (filter (\<lambda>loc. type loc = r) locs) \<le> 1"
  using assms by (induction locs) (auto simp: filter_empty_conv image_iff)

lemma replace_keeps_length:
  assumes "distinct (map type locs)" and "t \<in> set (map type locs)"
  shows "length (filter (\<lambda>loc. type loc \<noteq> t) locs @ [new]) = length locs"
  using assms
proof (induction locs)
  case Nil
  then show ?case by simp
next
  case (Cons x xs)
  show ?case
  proof (cases "type x = t")
    case True
    with Cons.prems have "t \<notin> set (map type xs)" by auto
    then have "filter (\<lambda>loc. type loc \<noteq> t) xs = xs"
      by (auto simp: filter_id_conv)
    with True show ?thesis by simp
  next
    case False
    with Cons show ?thesis by auto
  qed
qed

text \<open>
  C6. After every sequence of selections (and clearings) on the planning page the
  working set holds at most one location per role. A selection for a role leaves
  exactly the new location under that role and the other roles as they were; when the
  role was in use, the set keeps its length.
\<close>

theorem one_location_per_role:
  "distinct (map type (mapLocations (fst (runPlan evs (initialPlanTrip, ctx))))) \<and>
   (\<forall>r. length (filter (\<lambda>loc. type loc = r)
                  (mapLocations (fst (runPlan evs (initialPlanTrip, ctx))))) \<le> 1) \<and>
   filter (\<lambda>loc. type loc = t)
          (mapLocations (fst (handleLocationChange t a (Some c) (runPlan evs (initialPlanTrip, ctx)))))
     = [\<lparr> lat = lat c, lng = lng c, address = a, type = t \<rparr>] \<and>
   filter (\<lambda>loc. type loc \<noteq> t)
          (mapLocations (fst (handleLocationChange t a (Some c) (runPlan evs (initialPlanTrip, ctx)))))
     = filter (\<lambda>loc. type loc \<noteq> t) (mapLocations (fst (runPlan evs (initialPlanTrip, ctx)))) \<and>
   (t \<in> set (map type (mapLocations (fst (runPlan evs (initialPlanTrip, ctx))))) \<longrightarrow>
      length (mapLocations (fst (handleLocationChange t a (Some c) (runPlan evs (initialPlanTrip, ctx)))))
        = length (mapLocations (fst (runPlan evs (initialPlanTrip, ctx)))))"
proof -
  let ?sc = "runPlan evs (initialPlanTrip, ctx)"
  have d: "distinct (map type (mapLocations (fst ?sc)))"
    by (rule runPlan_distinct) (simp add: initialPlanTrip_def)
  have one: "\<forall>r. length (filter (\<lambda>loc. type loc = r) (mapLocations (fst ?sc))) \<le> 1"
    using distinct_roles_at_most_one [OF d] by blast
  have same: "t \<in> set (map type (mapLocations (fst ?sc))) \<longrightarrow>
      length (mapLocations (fst (handleLocationChange t a (Some c) ?sc))) = length (mapLocations (fst ?sc))"
    using replace_keeps_length [OF d] by (simp add: mapLocations_handleLocationChange)
  show ?thesis
    using d one same by (simp add: mapLocations_handleLocationChange)
qed

theorem one_location_per_role_witness:
  "type \<lparr> lat = lat boston, lng = lng boston, address = ''A'', type = current \<rparr>
     \<in> set (map type (mapLocations (fst (runPlan
          [LocationChange current ''A'' (Some boston), LocationChange pickup ''P'' (Some albany)]
          (initialPlanTrip, readyMap))))) \<and>
   map address (mapLocations (fst (runPlan
          [LocationChange current ''A'' (Some boston), LocationChange pickup ''P'' (Some albany)]
          (initialPlanTrip, readyMap)))) = [''A'', ''P''] \<and>
   length (mapLocations (fst (handleLocationChange current ''B'' (Some albany) (runPlan
          [LocationChange current ''A'' (Some boston), LocationChange pickup ''P'' (Some albany)]
          (initialPlanTrip, readyMap))))) = 2"
proof -
  let ?evs = "[LocationChange current ''A'' (Some boston), LocationChange pickup ''P'' (Some albany)]"
  have locs: "mapLocations (fst (runPlan ?evs (initialPlanTrip, readyMap))) =
       [\<lparr> lat = lat boston, lng = lng boston, address = ''A'', type = current \<rparr>,
        \<lparr> lat = lat albany, lng = lng albany, address = ''P'', type = pickup \<rparr>]"
    by (simp add: runPlan_def mapLocations_handleLocationChange initialPlanTrip_def)
  show ?thesis
    using one_location_per_role [of ?evs readyMap current "''B''" albany] locs
    by simp
qed

text \<open>
  C8 says that replacing the marker of a role removes the prior marker first. After
  two selections for the role \<open>current\<close> the working set holds the second location
  only, and the map carries both green markers: \<open>addMarker\<close> never removes one.
\<close>

theorem replaced_marker_stays_on_map:
  "map_option (\<lambda>m. map color (attached m))
     (mapInstance (snd (runPlan
        [LocationChange current ''A'' (Some boston), LocationChange current ''B'' (Some albany)]
        (initialPlanTrip, readyMap))))
     = Some [''#28a745'', ''#28a745''] \<and>
   map address (mapLocations (fst (runPlan
        [LocationChange current ''A'' (Some boston), LocationChange current ''B'' (Some albany)]
        (initialPlanTrip, readyMap)))) = [''B'']"
  by (simp add: runPlan_def handleLocationChange_def Let_def setAddressText_def addMarker_def
      fitMapToBounds_def readyMap_def initMap_def newMap_def initialPlanTrip_def getMarkerColor_def)

text \<open>The route line, for its part, is replaced: remove, then add.\<close>


lemma filter_none: "filter (\<lambda>l. fst l = k) (filter (\<lambda>l. fst l \<noteq> k) xs) = []"
  by (induction xs) auto

lemma filter_absent: "k \<notin> set (map fst xs) \<Longrightarrow> filter (\<lambda>l. fst l = k) xs = []"
  by (induction xs) auto

lemma singleRoute_fitMapToBounds: "singleRoute (fitMapToBounds ctx) = singleRoute ctx"
proof (cases "mapInstance ctx")
  case None
  then show ?thesis by (simp add: fitMapToBounds_def)
next
  case (Some m)
  then show ?thesis
    by (cases "markers ctx = []") (simp_all add: fitMapToBounds_def singleRoute_def getLayer_def)
qed

lemma singleRoute_addMarker:
  assumes "singleRoute ctx"
  shows "singleRoute (addMarker loc ctx)"
proof (cases "mapInstance ctx")
  case None
  with assms show ?thesis by (simp add: addMarker_def)
next
  case (Some m)
  with assms show ?thesis
    by (simp add: addMarker_def Let_def singleRoute_fitMapToBounds)
       (simp add: singleRoute_def getLayer_def)
qed

lemma singleRoute_drawRoute:
  assumes inv: "singleRoute ctx"
  shows "singleRoute (drawRoute locs ctx)"
proof (cases "mapInstance ctx")
  case None
  with inv show ?thesis by (simp add: drawRoute_def)
next
  case (Some m)
  show ?thesis
  proof (cases "length locs < 2")
    case True
    with Some inv show ?thesis by (simp add: drawRoute_def)
  next
    case False
    show ?thesis
    proof (cases "getLayer m ''route-layer''")
      case True
      with Some False show ?thesis
        by (simp add: drawRoute_def Let_def singleRoute_fitMapToBounds)
           (simp add: singleRoute_def getLayer_def addLayer_def addSource_def removeSource_def
              removeLayer_def filter_none)
    next
      case noLayer: False
      with inv Some have "''route'' \<notin> set (map fst (sources m))"
        by (simp add: singleRoute_def)
      then have s: "filter (\<lambda>l. fst l = ''route'') (sources m) = []" by (rule filter_absent)
      from noLayer have l: "filter (\<lambda>l. fst l = ''route-layer'') (layers m) = []"
        by (simp add: getLayer_def filter_absent)
      from Some False noLayer show ?thesis
        by (simp add: drawRoute_def Let_def singleRoute_fitMapToBounds)
           (simp add: singleRoute_def getLayer_def addLayer_def addSource_def s l)
    qed
  qed
qed

lemma singleRoute_planStep: "singleRoute (snd sc) \<Longrightarrow> singleRoute (snd (planStep ev sc))"
  by (cases ev)
     (auto simp add: handleLocationChange_def Let_def singleRoute_addMarker singleRoute_drawRoute
        split: option.splits)

lemma singleRoute_runPlan: "singleRoute (snd sc) \<Longrightarrow> singleRoute (snd (runPlan evs sc))"
  unfolding runPlan_def
  by (induction evs arbitrary: sc) (simp_all add: singleRoute_planStep)

lemma singleRoute_readyMap: "singleRoute readyMap"
  by (simp add: singleRoute_def readyMap_def initMap_def newMap_def)

lemma route_never_duplicated: "singleRoute (snd (runPlan evs (initialPlanTrip, readyMap)))"
  by (rule singleRoute_runPlan) (simp add: singleRoute_readyMap)


section \<open>Properties of the location input\<close>

text \<open>
  C9, as amended. A newer value replaces the pending debounce timeout and touches
  neither the searches under way nor the suggestions; a search that has been issued is
  applied to the suggestions when it settles (its features, or the empty list when it
  is rejected), whether or not a later search has been issued.
\<close>

theorem response_applied_on_arrival:
  "(n \<in> set (map fst (inflight s)) \<longrightarrow>
      suggestions (inputStep (Settled n (Features fs)) s) = fs \<and>
      showSuggestions (inputStep (Settled n (Features fs)) s) \<and>
      suggestions (inputStep (Settled n Rejected) s) = []) \<and>
   (v \<noteq> text_value s \<longrightarrow>
      handler (inputStep (ValueChanged v) s) = Some v \<and>
      inflight (inputStep (ValueChanged v) s) = inflight s \<and>
      issued (inputStep (ValueChanged v) s) = issued s \<and>
      suggestions (inputStep (ValueChanged v) s) = suggestions s)"
  by (simp add: settle_def)


lemma staleTrace_state:
  "runInput staleTrace (mountInput []) =
     \<lparr> text_value = ''boston'', debouncedValue = ''boston'', handler = None,
       suggestions = [newFeature], showSuggestions = True, isLoading = False, isValid = False,
       inflight = [(0, ''bos'')], issued = 2 \<rparr>"
  by (simp add: staleTrace_def runInput_def mountInput_def searchEffect_def settle_def Let_def)

text \<open>
  C9 as stated says that the answer to a superseded search is discarded. Here the
  search for \<open>bos\<close> is superseded by the search for \<open>boston\<close>, whose answer is shown;
  then the late answer for \<open>bos\<close> overwrites it.
\<close>

theorem stale_response_counterexample:
  "superseded 0 (runInput staleTrace (mountInput [])) \<and>
   suggestions (runInput staleTrace (mountInput [])) = [newFeature] \<and>
   suggestions (runInput (staleTrace @ [Settled 0 (Features [oldFeature])]) (mountInput []))
     = [oldFeature]"
  using staleTrace_state
  by (simp add: runInput_def superseded_def settle_def)

theorem response_applied_on_arrival_witness:
  "0 \<in> set (map fst (inflight (runInput staleTrace (mountInput [])))) \<and>
   suggestions (inputStep (Settled 0 (Features [oldFeature])) (runInput staleTrace (mountInput [])))
     = [oldFeature] \<and>
   ''bost'' \<noteq> text_value (runInput staleTrace (mountInput [])) \<and>
   handler (inputStep (ValueChanged ''bost'') (runInput staleTrace (mountInput []))) = Some ''bost''"
  using response_applied_on_arrival [of 0 "runInput staleTrace (mountInput [])" "[oldFeature]" "''bost''"]
        staleTrace_state
  by simp

end
